theory Spec2Isabelle
  imports Main
begin

section \<open>Python values and exceptions\<close>

text \<open>
  The two source units are Python. A handler receives the decoded wire payload, so the
  values are those a wire decoder produces (null, booleans, numbers, strings, sequences and
  mappings), together with objects of any other class, which the dependency may return.

  \<^item> A string is a list of characters; a character stands for the code point of the same
    number (0 to 255). Strings with higher code points are not represented.
  \<^item> An integer is unbounded, and rendering it always succeeds.
  \<^item> A float is carried by the text \<open>repr\<close> gives for it. The handlers never compute with
    a number, they only render it.
  \<^item> A mapping is the list of its items in insertion order. Python keeps one item per key.
  \<^item> An object of another class is carried by what \<open>repr\<close> does on it: it returns a text or
    raises. Such a class is taken to inherit \<open>__str__\<close> and \<open>__format__\<close> from \<open>object\<close>,
    not to derive from \<open>dict\<close> and to have no attribute \<open>get\<close>.
\<close>

datatype pyexc =
    AttributeError
  | TypeError
  | UnboundLocalError
  | OtherException string
  | OtherBaseException string

text \<open>
  \<open>except Exception\<close> catches the classes derived from \<open>Exception\<close>. \<open>KeyboardInterrupt\<close>,
  \<open>SystemExit\<close> and \<open>GeneratorExit\<close> derive from \<open>BaseException\<close> only.
\<close>

fun isinstance_Exception :: "pyexc \<Rightarrow> bool" where
  "isinstance_Exception (OtherBaseException c) = False"
| "isinstance_Exception x = True"

datatype pyval =
    PNone
  | PBool bool
  | PInt int
  | PFloat string
  | PStr string
  | PList "pyval list"
  | PDict "(pyval \<times> pyval) list"
  | PObject "pyexc + string"

text \<open>The values with a wire representation: string keys, and no object of another class.\<close>

fun wire_value :: "pyval \<Rightarrow> bool"
  and wire_values :: "pyval list \<Rightarrow> bool"
  and wire_items :: "(pyval \<times> pyval) list \<Rightarrow> bool" where
  "wire_value PNone = True"
| "wire_value (PBool b) = True"
| "wire_value (PInt i) = True"
| "wire_value (PFloat r) = True"
| "wire_value (PStr s) = True"
| "wire_value (PList xs) = wire_values xs"
| "wire_value (PDict kvs) = wire_items kvs"
| "wire_value (PObject r) = False"
| "wire_values [] = True"
| "wire_values (x # xs) = (wire_value x \<and> wire_values xs)"
| "wire_items [] = True"
| "wire_items ((k, v) # kvs) =
     ((case k of PStr s \<Rightarrow> True | _ \<Rightarrow> False) \<and> wire_value v \<and> wire_items kvs)"

section \<open>The built-in operations the handlers use\<close>

definition raise_bind :: "pyexc + 'a \<Rightarrow> ('a \<Rightarrow> pyexc + 'b) \<Rightarrow> pyexc + 'b" where
  "raise_bind m f = (case m of Inl x \<Rightarrow> Inl x | Inr v \<Rightarrow> f v)"

text \<open>\<open>isinstance(event, dict)\<close>\<close>

fun isinstance_dict :: "pyval \<Rightarrow> bool" where
  "isinstance_dict (PDict kvs) = True"
| "isinstance_dict v = False"

text \<open>
  \<open>obj.get(key, default)\<close>: on a mapping, the value stored under the key, or the default
  when the key is absent; on any other value the attribute lookup raises.
\<close>

fun method_get :: "pyval \<Rightarrow> pyval \<Rightarrow> pyval \<Rightarrow> pyexc + pyval" where
  "method_get (PDict kvs) key dflt =
     (case map_of kvs key of None \<Rightarrow> Inr dflt | Some v \<Rightarrow> Inr v)"
| "method_get obj key dflt = Inl AttributeError"

subsection \<open>Rendering: \<open>repr\<close>, \<open>str\<close> and the f-string field\<close>

definition digit_char :: "nat \<Rightarrow> char" where
  "digit_char d = char_of (of_char (CHR ''0'') + d)"

fun str_nat :: "nat \<Rightarrow> string" where
  "str_nat n = (if n < 10 then [digit_char n] else str_nat (n div 10) @ [digit_char (n mod 10)])"

definition str_int :: "int \<Rightarrow> string" where
  "str_int i = (if i < 0 then CHR ''-'' # str_nat (nat (- i)) else str_nat (nat i))"

definition hex_char :: "nat \<Rightarrow> char" where
  "hex_char d = (if d < 10 then digit_char d else char_of (of_char (CHR ''a'') + (d - 10)))"

definition squote :: char where "squote = CHR 0x27"
definition dquote :: char where "dquote = CHR 0x22"
definition backslash :: char where "backslash = CHR 0x5C"

text \<open>The quote \<open>repr\<close> chooses: double only when the string has a single and no double.\<close>

definition repr_quote :: "string \<Rightarrow> char" where
  "repr_quote s = (if squote \<in> set s \<and> dquote \<notin> set s then dquote else squote)"

text \<open>
  The code points from 128 to 255 that Unicode does not count as printable: the C1 controls,
  the no-break space and the soft hyphen.
\<close>

definition printable_high :: "nat \<Rightarrow> bool" where
  "printable_high n = (n > 160 \<and> n \<noteq> 173)"

definition hex_escape :: "nat \<Rightarrow> string" where
  "hex_escape n = [backslash, CHR ''x'', hex_char (n div 16), hex_char (n mod 16)]"

definition repr_char :: "char \<Rightarrow> char \<Rightarrow> string" where
  "repr_char q c =
     (let n = (of_char c :: nat) in
      if c = q \<or> c = backslash then [backslash, c]
      else if n = 9 then [backslash, CHR ''t'']
      else if n = 10 then [backslash, CHR ''n'']
      else if n = 13 then [backslash, CHR ''r'']
      else if n < 32 \<or> n = 127 then hex_escape n
      else if n < 127 then [c]
      else if \<not> printable_high n then hex_escape n
      else [c])"

definition repr_str :: "string \<Rightarrow> string" where
  "repr_str s = (let q = repr_quote s in q # concat (map (repr_char q) s) @ [q])"

fun join :: "string \<Rightarrow> string list \<Rightarrow> string" where
  "join sep [] = []"
| "join sep [x] = x"
| "join sep (x # y # ys) = x @ sep @ join sep (y # ys)"

function py_repr :: "pyval \<Rightarrow> pyexc + string"
  and repr_elems :: "pyval list \<Rightarrow> pyexc + string list"
  and repr_items :: "(pyval \<times> pyval) list \<Rightarrow> pyexc + string list" where
  "py_repr PNone = Inr ''None''"
| "py_repr (PBool b) = Inr (if b then ''True'' else ''False'')"
| "py_repr (PInt i) = Inr (str_int i)"
| "py_repr (PFloat r) = Inr r"
| "py_repr (PStr s) = Inr (repr_str s)"
| "py_repr (PList xs) =
     raise_bind (repr_elems xs) (\<lambda>rs. Inr (''['' @ join '', '' rs @ '']''))"
| "py_repr (PDict kvs) =
     raise_bind (repr_items kvs) (\<lambda>rs. Inr (''{'' @ join '', '' rs @ ''}''))"
| "py_repr (PObject r) = r"
| "repr_elems [] = Inr []"
| "repr_elems (x # xs) =
     raise_bind (py_repr x) (\<lambda>r. raise_bind (repr_elems xs) (\<lambda>rs. Inr (r # rs)))"
| "repr_items [] = Inr []"
| "repr_items ((k, v) # kvs) =
     raise_bind (py_repr k) (\<lambda>rk.
     raise_bind (py_repr v) (\<lambda>rv.
     raise_bind (repr_items kvs) (\<lambda>rs. Inr ((rk @ '': '' @ rv) # rs))))"
  by pat_completeness auto
termination
  by (relation "measure (\<lambda>x. case x of
        Inl v \<Rightarrow> size v
      | Inr (Inl xs) \<Rightarrow> size_list size xs
      | Inr (Inr kvs) \<Rightarrow> size_list (size_prod size size) kvs)") auto

text \<open>\<open>str(v)\<close>: a string is itself, every other value is its \<open>repr\<close>.\<close>

fun py_str :: "pyval \<Rightarrow> pyexc + string" where
  "py_str (PStr s) = Inr s"
| "py_str v = py_repr v"

text \<open>The replacement field \<open>{name}\<close> of an f-string, with no format spec: \<open>format(v, '')\<close>.\<close>

definition py_format :: "pyval \<Rightarrow> pyexc + string" where
  "py_format v = py_str v"

section \<open>handler.py\<close>

text \<open>
  The frame of one call: the parameter \<open>event\<close> and the local \<open>name\<close>, unbound until the
  \<open>try\<close> statement assigns it. The statements are defined on every frame that has these
  two fields, whatever else it holds.
\<close>

record frame =
  event :: pyval
  name :: "pyval option"

text \<open>
  Lines 5 to 8, the \<open>try\<close> statement. The conditional expression tests
  \<open>isinstance(event, dict)\<close> first, then evaluates one branch.
\<close>

definition handler_try :: "'a frame_scheme \<Rightarrow> pyexc + 'a frame_scheme" where
  "handler_try fr =
     (case (if isinstance_dict (event fr)
            then method_get (event fr) (PStr ''name'') (PStr ''World'')
            else Inr (PStr ''World'')) of
        Inr v \<Rightarrow> Inr (fr\<lparr>name := Some v\<rparr>)
      | Inl x \<Rightarrow>
          if isinstance_Exception x then Inr (fr\<lparr>name := Some (PStr ''World'')\<rparr>)
          else Inl x)"

text \<open>Line 9, the \<open>return\<close> statement.\<close>

definition handler_return :: "'a frame_scheme \<Rightarrow> pyexc + pyval" where
  "handler_return fr =
     (case name fr of
        None \<Rightarrow> Inl UnboundLocalError
      | Some v \<Rightarrow>
          raise_bind (py_format v) (\<lambda>s.
            Inr (PDict [(PStr ''message'', PStr (''Hello, '' @ s @ ''!''))])))"

text \<open>The body, run on a frame: what the call returns or raises, and the frame at exit.\<close>

definition handler_body :: "'a frame_scheme \<Rightarrow> (pyexc + pyval) \<times> 'a frame_scheme" where
  "handler_body fr =
     (case handler_try fr of
        Inl x \<Rightarrow> (Inl x, fr)
      | Inr fr' \<Rightarrow> (handler_return fr', fr'))"

definition handler :: "pyval \<Rightarrow> pyexc + pyval" where
  "handler ev = fst (handler_body \<lparr>event = ev, name = None\<rparr>)"

text \<open>
  \<open>def handler(event)\<close>: a call binds its positional arguments to the one parameter, in a
  fresh frame; with any other number of arguments the call raises before the body runs.
\<close>

definition handler_call :: "pyval list \<Rightarrow> pyexc + pyval" where
  "handler_call args = (case args of [ev] \<Rightarrow> handler ev | _ \<Rightarrow> Inl TypeError)"

section \<open>handler-w-deps.py\<close>

text \<open>
  Line 3 imports \<open>greet\<close> from the module \<open>greeter\<close>, which the host preloads; the module is
  not among the sources, so \<open>greet\<close> is a parameter. It is code of the host's choosing: a call
  returns a value or raises, and may read and change the state \<open>'s\<close> of the dependency module,
  which outlives the call. It is handed the value bound to \<open>name\<close>.
\<close>

type_synonym 's dependency = "pyval \<Rightarrow> 's \<Rightarrow> (pyexc + pyval) \<times> 's"

text \<open>Lines 6 to 9, the \<open>try\<close> statement; \<open>event.get("name")\<close> has the default \<open>None\<close>.\<close>

definition handler_w_deps_try :: "'a frame_scheme \<Rightarrow> pyexc + 'a frame_scheme" where
  "handler_w_deps_try fr =
     (case (if isinstance_dict (event fr)
            then method_get (event fr) (PStr ''name'') PNone
            else Inr PNone) of
        Inr v \<Rightarrow> Inr (fr\<lparr>name := Some v\<rparr>)
      | Inl x \<Rightarrow>
          if isinstance_Exception x then Inr (fr\<lparr>name := Some PNone\<rparr>)
          else Inl x)"

text \<open>Line 10, the \<open>return\<close> statement: the call of \<open>greet\<close> is outside the \<open>try\<close>.\<close>

definition handler_w_deps_return ::
  "'s dependency \<Rightarrow> 'a frame_scheme \<Rightarrow> 's \<Rightarrow> (pyexc + pyval) \<times> 's" where
  "handler_w_deps_return greet fr s =
     (case name fr of
        None \<Rightarrow> (Inl UnboundLocalError, s)
      | Some v \<Rightarrow>
          (case greet v s of
             (Inl x, s') \<Rightarrow> (Inl x, s')
           | (Inr m, s') \<Rightarrow> (Inr (PDict [(PStr ''message'', m)]), s')))"

definition handler_w_deps_body ::
  "'s dependency \<Rightarrow> 'a frame_scheme \<Rightarrow> 's
     \<Rightarrow> ((pyexc + pyval) \<times> 's) \<times> 'a frame_scheme" where
  "handler_w_deps_body greet fr s =
     (case handler_w_deps_try fr of
        Inl x \<Rightarrow> ((Inl x, s), fr)
      | Inr fr' \<Rightarrow> (handler_w_deps_return greet fr' s, fr'))"

definition handler_w_deps :: "'s dependency \<Rightarrow> pyval \<Rightarrow> 's \<Rightarrow> (pyexc + pyval) \<times> 's" where
  "handler_w_deps greet ev s = fst (handler_w_deps_body greet \<lparr>event = ev, name = None\<rparr> s)"

definition handler_w_deps_call ::
  "'s dependency \<Rightarrow> pyval list \<Rightarrow> 's \<Rightarrow> (pyexc + pyval) \<times> 's" where
  "handler_w_deps_call greet args s =
     (case args of [ev] \<Rightarrow> handler_w_deps greet ev s | _ \<Rightarrow> (Inl TypeError, s))"

section \<open>The source units\<close>

text \<open>
  What the top-level statements of a unit bind, in order: a \<open>def\<close> binds a function of the
  unit, a \<open>from ... import\<close> binds a name of the module named.
\<close>

datatype 'f binding = Def 'f | ImportFrom string

definition handler_py :: "(string \<times> (pyval list \<Rightarrow> pyexc + pyval) binding) list" where
  "handler_py = [(''handler'', Def handler_call)]"

definition handler_w_deps_py ::
  "'s dependency \<Rightarrow> (string \<times> (pyval list \<Rightarrow> 's \<Rightarrow> (pyexc + pyval) \<times> 's) binding) list" where
  "handler_w_deps_py greet =
     [(''greet'', ImportFrom ''greeter''), (''handler'', Def (handler_w_deps_call greet))]"

fun defined_functions :: "(string \<times> 'f binding) list \<Rightarrow> (string \<times> 'f) list" where
  "defined_functions [] = []"
| "defined_functions ((n, Def f) # bs) = (n, f) # defined_functions bs"
| "defined_functions ((n, ImportFrom m) # bs) = defined_functions bs"

section \<open>Dependencies and repeated invocation\<close>

text \<open>A dependency that is a fixed function: it neither reads nor changes the module state.\<close>

definition fixed :: "(pyval \<Rightarrow> pyexc + pyval) \<Rightarrow> 's dependency" where
  "fixed g v s = (g v, s)"

text \<open>A dependency that keeps, as its state, the arguments of the calls made to it.\<close>

definition recording :: "(pyval \<Rightarrow> pyexc + pyval) \<Rightarrow> (pyval list) dependency" where
  "recording g v calls = (g v, calls @ [v])"

text \<open>
  Modelled from the spec: the \<open>greeter\<close> module is not among the sources. The spec gives "a
  preloaded dependency whose greeting function returns \<open>"Hi, <name>"\<close>" and speaks of "the
  dependency's default-name behavior". A greeting function with a default name:
  \<^verbatim>\<open>def greet(name): return "Hi, " + (name if isinstance(name, str) else "World")\<close>
\<close>

fun greet_default :: "pyval \<Rightarrow> pyexc + pyval" where
  "greet_default (PStr n) = Inr (PStr (''Hi, '' @ n))"
| "greet_default v = Inr (PStr ''Hi, World'')"

text \<open>
  Modelled from the spec: the \<open>greeter\<close> module is not among the sources. Another greeting
  function that returns \<open>"Hi, <name>"\<close>, with no default name:
  \<^verbatim>\<open>def greet(name): return "Hi, " + name\<close>
  The operator \<open>+\<close> raises \<open>TypeError\<close> when \<open>name\<close> is not a string.
\<close>

fun greet_concat :: "pyval \<Rightarrow> pyexc + pyval" where
  "greet_concat (PStr n) = Inr (PStr (''Hi, '' @ n))"
| "greet_concat v = Inl TypeError"







section \<open>Facts about the built-in operations and the two bodies\<close>

lemma py_format_PStr: "py_format (PStr s) = Inr s"
  by (simp add: py_format_def)

lemma handler_mapping:
  "handler (PDict kvs) =
     raise_bind
       (py_format (case map_of kvs (PStr ''name'') of None \<Rightarrow> PStr ''World'' | Some v \<Rightarrow> v))
       (\<lambda>s. Inr (PDict [(PStr ''message'', PStr (''Hello, '' @ s @ ''!''))]))"
  by (simp add: handler_def handler_body_def handler_try_def handler_return_def
      split: option.split)

lemma handler_not_mapping:
  "\<not> isinstance_dict ev \<Longrightarrow>
     handler ev = Inr (PDict [(PStr ''message'', PStr ''Hello, World!'')])"
  by (simp add: handler_def handler_body_def handler_try_def handler_return_def
      py_format_PStr raise_bind_def)

text \<open>Rendering a wire value never raises: by induction over the value, its elements and items.\<close>

lemma repr_wire:
  "wire_value v \<Longrightarrow> \<exists>r. py_repr v = Inr r"
  "wire_values xs \<Longrightarrow> \<exists>rs. repr_elems xs = Inr rs"
  "wire_items kvs \<Longrightarrow> \<exists>rs. repr_items kvs = Inr rs"
  by (induction v and xs and kvs rule: wire_value_wire_values_wire_items.induct)
     (auto simp: raise_bind_def split: pyval.splits)

lemma format_wire: "wire_value v \<Longrightarrow> \<exists>r. py_format v = Inr r"
  using repr_wire(1) [of v] by (cases v) (auto simp: py_format_def)

lemma wire_items_lookup:
  "wire_items kvs \<Longrightarrow> map_of kvs k = Some v \<Longrightarrow> wire_value v"
  by (induction kvs) (auto split: if_splits)

text \<open>The \<open>try\<close> statements complete on every event, and bind \<open>name\<close> as follows.\<close>

lemma handler_try_total:
  "handler_try \<lparr>event = ev, name = n, \<dots> = rest\<rparr> =
     Inr \<lparr>event = ev,
          name = Some (case ev of
                   PDict kvs \<Rightarrow>
                     (case map_of kvs (PStr ''name'') of None \<Rightarrow> PStr ''World'' | Some v \<Rightarrow> v)
                 | _ \<Rightarrow> PStr ''World''),
          \<dots> = rest\<rparr>"
  by (cases ev) (simp_all add: handler_try_def split: option.split)

lemma handler_w_deps_try_total:
  "handler_w_deps_try \<lparr>event = ev, name = n, \<dots> = rest\<rparr> =
     Inr \<lparr>event = ev,
          name = Some (case ev of
                   PDict kvs \<Rightarrow>
                     (case map_of kvs (PStr ''name'') of None \<Rightarrow> PNone | Some v \<Rightarrow> v)
                 | _ \<Rightarrow> PNone),
          \<dots> = rest\<rparr>"
  by (cases ev) (simp_all add: handler_w_deps_try_def split: option.split)

lemma handler_w_deps_eq:
  "handler_w_deps greet ev s =
     (case greet (case ev of
                    PDict kvs \<Rightarrow>
                      (case map_of kvs (PStr ''name'') of None \<Rightarrow> PNone | Some v \<Rightarrow> v)
                  | _ \<Rightarrow> PNone) s of
        (Inl x, s') \<Rightarrow> (Inl x, s')
      | (Inr m, s') \<Rightarrow> (Inr (PDict [(PStr ''message'', m)]), s'))"
  by (simp add: handler_w_deps_def handler_w_deps_body_def handler_w_deps_try_total
      handler_w_deps_return_def)

lemma handler_w_deps_not_mapping:
  "\<not> isinstance_dict ev \<Longrightarrow>
     handler_w_deps greet ev s =
       (case greet PNone s of
          (Inl x, s') \<Rightarrow> (Inl x, s')
        | (Inr m, s') \<Rightarrow> (Inr (PDict [(PStr ''message'', m)]), s'))"
  by (cases ev) (simp_all add: handler_w_deps_eq)

lemma handler_wire_returns:
  assumes "wire_value ev"
  shows "\<exists>m. handler ev = Inr (PDict [(PStr ''message'', PStr m)])"
proof (cases ev)
  case (PDict kvs)
  let ?v = "case map_of kvs (PStr ''name'') of None \<Rightarrow> PStr ''World'' | Some v \<Rightarrow> v"
  have "wire_value ?v"
    using assms PDict by (auto split: option.split dest: wire_items_lookup)
  then obtain r where "py_format ?v = Inr r"
    using format_wire by blast
  then show ?thesis
    using PDict by (simp add: handler_mapping raise_bind_def)
qed (simp_all add: handler_not_mapping)

lemma greet_default_string: "\<exists>m. greet_default v = Inr (PStr m)"
  by (cases v) simp_all








section \<open>The claims\<close>

text \<open>
  C1. The handler of \<open>handler.py\<close> returns \<open>{"message": "Hello, Ada!"}\<close> on the event
  \<open>{"name": "Ada"}\<close>, and \<open>{"message": "Hello, World!"}\<close> on the empty mapping and on the
  string \<open>"not-a-mapping"\<close>. Each call returns: none raises.
\<close>

theorem handler_specimen_payloads:
  "handler (PDict [(PStr ''name'', PStr ''Ada'')])
     = Inr (PDict [(PStr ''message'', PStr ''Hello, Ada!'')])
   \<and> handler (PDict []) = Inr (PDict [(PStr ''message'', PStr ''Hello, World!'')])
   \<and> handler (PStr ''not-a-mapping'')
     = Inr (PDict [(PStr ''message'', PStr ''Hello, World!'')])"
  by (simp add: handler_mapping handler_not_mapping py_format_PStr raise_bind_def)

text \<open>
  C2, as stated: with a \<open>greet\<close> that maps a name \<open>n\<close> to \<open>"Hi, "\<close> followed by \<open>n\<close>, the
  handler of \<open>handler-w-deps.py\<close> returns, rather than raises, on every event that is not a
  mapping. It fails: the greeting function \<open>"Hi, " + name\<close> maps every name so (the first
  equation of \<open>greet_concat\<close>), and on the sequence \<open>["Ada"]\<close> the handler binds \<open>None\<close> to
  \<open>name\<close>, \<open>greet(None)\<close> raises \<open>TypeError\<close>, and the handler raises it.
\<close>

theorem handler_w_deps_fallback_raises:
  "fst (fixed greet_concat (PStr ''Ada'') ()) = Inr (PStr ''Hi, Ada'')
   \<and> \<not> isinstance_dict (PList [PStr ''Ada''])
   \<and> handler_w_deps (fixed greet_concat) (PList [PStr ''Ada'']) () = (Inl TypeError, ())"
  by (simp add: handler_w_deps_eq fixed_def)

text \<open>
  C2, amended. With a \<open>greet\<close> that maps a name \<open>n\<close> to \<open>"Hi, "\<close> followed by \<open>n\<close>, the handler
  of \<open>handler-w-deps.py\<close> returns \<open>{"message": "Hi, Ada"}\<close> on the event \<open>{"name": "Ada"}\<close>. On
  every event that is not a mapping it calls \<open>greet(None)\<close>: when that call returns \<open>d\<close> the
  handler returns \<open>{"message": d}\<close>, and when that call raises the handler raises the same
  exception. The shape of the event raises nothing.
\<close>

theorem handler_w_deps_greets_and_falls_back:
  "(\<forall>n t. fst (greet (PStr n) t) = Inr (PStr (''Hi, '' @ n))) \<Longrightarrow>
     fst (handler_w_deps greet (PDict [(PStr ''name'', PStr ''Ada'')]) s)
       = Inr (PDict [(PStr ''message'', PStr ''Hi, Ada'')])
     \<and> (\<forall>ev d s'. \<not> isinstance_dict ev \<and> greet PNone s = (Inr d, s') \<longrightarrow>
          handler_w_deps greet ev s = (Inr (PDict [(PStr ''message'', d)]), s'))
     \<and> (\<forall>ev x s'. \<not> isinstance_dict ev \<and> greet PNone s = (Inl x, s') \<longrightarrow>
          handler_w_deps greet ev s = (Inl x, s'))"
proof (intro conjI allI impI)
  assume "\<forall>n t. fst (greet (PStr n) t) = Inr (PStr (''Hi, '' @ n))"
  then have "fst (greet (PStr ''Ada'') s) = Inr (PStr ''Hi, Ada'')"
    by simp
  then show "fst (handler_w_deps greet (PDict [(PStr ''name'', PStr ''Ada'')]) s)
       = Inr (PDict [(PStr ''message'', PStr ''Hi, Ada'')])"
    by (cases "greet (PStr ''Ada'') s") (simp add: handler_w_deps_eq)
next
  fix ev d s'
  assume "\<not> isinstance_dict ev \<and> greet PNone s = (Inr d, s')"
  then show "handler_w_deps greet ev s = (Inr (PDict [(PStr ''message'', d)]), s')"
    by (simp add: handler_w_deps_not_mapping)
next
  fix ev x s'
  assume "\<not> isinstance_dict ev \<and> greet PNone s = (Inl x, s')"
  then show "handler_w_deps greet ev s = (Inl x, s')"
    by (simp add: handler_w_deps_not_mapping)
qed

theorem handler_w_deps_greets_and_falls_back_witness:
  "(\<forall>n t. fst (fixed greet_default (PStr n) (t::unit)) = Inr (PStr (''Hi, '' @ n)))
   \<and> fst (handler_w_deps (fixed greet_default) (PDict [(PStr ''name'', PStr ''Ada'')]) ())
       = Inr (PDict [(PStr ''message'', PStr ''Hi, Ada'')])
   \<and> \<not> isinstance_dict (PStr ''not-a-mapping'')
   \<and> fixed greet_default PNone () = (Inr (PStr ''Hi, World''), ())
   \<and> handler_w_deps (fixed greet_default) (PStr ''not-a-mapping'') ()
       = (Inr (PDict [(PStr ''message'', PStr ''Hi, World'')]), ())
   \<and> (\<forall>n t. fst (fixed greet_concat (PStr n) (t::unit)) = Inr (PStr (''Hi, '' @ n)))
   \<and> \<not> isinstance_dict (PInt 5)
   \<and> fixed greet_concat PNone () = (Inl TypeError, ())
   \<and> handler_w_deps (fixed greet_concat) (PInt 5) () = (Inl TypeError, ())"
proof -
  have h: "\<forall>n t. fst (fixed greet_default (PStr n) (t::unit)) = Inr (PStr (''Hi, '' @ n))"
    by (simp add: fixed_def)
  have g: "\<not> isinstance_dict (PStr ''not-a-mapping'')
      \<and> fixed greet_default PNone () = (Inr (PStr ''Hi, World''), ())"
    by (simp add: fixed_def)
  have h': "\<forall>n t. fst (fixed greet_concat (PStr n) (t::unit)) = Inr (PStr (''Hi, '' @ n))"
    by (simp add: fixed_def)
  have g': "\<not> isinstance_dict (PInt 5) \<and> fixed greet_concat PNone () = (Inl TypeError, ())"
    by (simp add: fixed_def)
  from handler_w_deps_greets_and_falls_back [OF h, of "()"] g
  have 1: "fst (handler_w_deps (fixed greet_default) (PDict [(PStr ''name'', PStr ''Ada'')]) ())
        = Inr (PDict [(PStr ''message'', PStr ''Hi, Ada'')])
      \<and> handler_w_deps (fixed greet_default) (PStr ''not-a-mapping'') ()
        = (Inr (PDict [(PStr ''message'', PStr ''Hi, World'')]), ())"
    by blast
  from handler_w_deps_greets_and_falls_back [OF h', of "()"] g'
  have 2: "handler_w_deps (fixed greet_concat) (PInt 5) () = (Inl TypeError, ())"
    by blast
  from h g h' g' 1 2 show ?thesis
    by blast
qed

text \<open>
  C3, as stated: whatever \<open>greet\<close> does, neither handler raises. It fails for
  \<open>handler-w-deps.py\<close>: with the greeting function \<open>"Hi, " + name\<close> and the event
  \<open>"not-a-mapping"\<close> the handler binds \<open>None\<close> to \<open>name\<close>, \<open>greet(None)\<close> raises \<open>TypeError\<close>,
  and the handler raises it.
\<close>

theorem handler_w_deps_raises_when_greet_raises:
  "handler_w_deps (fixed greet_concat) (PStr ''not-a-mapping'') () = (Inl TypeError, ())"
  by (simp add: handler_w_deps_eq fixed_def)

text \<open>
  C3, amended. On every wire event the handler of \<open>handler.py\<close> returns. In both units the
  \<open>try\<close> statement completes on every event and binds \<open>name\<close>. The handler of
  \<open>handler-w-deps.py\<close> then calls \<open>greet\<close> on that value, outside the \<open>try\<close>: it raises what
  \<open>greet\<close> raises, and returns \<open>{"message": m}\<close> when \<open>greet\<close> returns \<open>m\<close>.
\<close>

theorem handlers_raise_only_what_greet_raises:
  "(wire_value ev \<longrightarrow> (\<exists>r. handler ev = Inr r))
   \<and> (\<exists>v. handler_try \<lparr>event = ev, name = None\<rparr> = Inr \<lparr>event = ev, name = Some v\<rparr>)
   \<and> (\<exists>v. handler_w_deps_try \<lparr>event = ev, name = None\<rparr> = Inr \<lparr>event = ev, name = Some v\<rparr>
          \<and> handler_w_deps greet ev s =
              (case greet v s of
                 (Inl x, s') \<Rightarrow> (Inl x, s')
               | (Inr m, s') \<Rightarrow> (Inr (PDict [(PStr ''message'', m)]), s')))"
proof (intro conjI impI)
  assume "wire_value ev"
  then show "\<exists>r. handler ev = Inr r"
    using handler_wire_returns by blast
next
  show "\<exists>v. handler_try \<lparr>event = ev, name = None\<rparr> = Inr \<lparr>event = ev, name = Some v\<rparr>"
    by (simp add: handler_try_total)
next
  show "\<exists>v. handler_w_deps_try \<lparr>event = ev, name = None\<rparr> = Inr \<lparr>event = ev, name = Some v\<rparr>
          \<and> handler_w_deps greet ev s =
              (case greet v s of
                 (Inl x, s') \<Rightarrow> (Inl x, s')
               | (Inr m, s') \<Rightarrow> (Inr (PDict [(PStr ''message'', m)]), s'))"
    by (simp add: handler_w_deps_try_total handler_w_deps_eq)
qed

theorem handlers_raise_only_what_greet_raises_witness:
  "wire_value (PDict [(PStr ''name'', PList [PInt 7, PNone])])
   \<and> (\<exists>r. handler (PDict [(PStr ''name'', PList [PInt 7, PNone])]) = Inr r)"
  using handlers_raise_only_what_greet_raises
    [of "PDict [(PStr ''name'', PList [PInt 7, PNone])]" "fixed greet_concat" "()"]
  by simp

text \<open>
  C4. On every wire event the handler of \<open>handler.py\<close> returns a one-key mapping from
  \<open>"message"\<close> to a string, and so does the handler of \<open>handler-w-deps.py\<close> on every event when
  \<open>greet\<close> returns a string; that mapping is a wire value, the shape the serializer accepts.
\<close>

theorem handlers_return_message_mapping:
  "(wire_value ev \<longrightarrow>
      (\<exists>m. handler ev = Inr (PDict [(PStr ''message'', PStr m)])
           \<and> wire_value (PDict [(PStr ''message'', PStr m)])))
   \<and> ((\<forall>v t. \<exists>m t'. greet v t = (Inr (PStr m), t')) \<longrightarrow>
      (\<exists>m s'. handler_w_deps greet ev s = (Inr (PDict [(PStr ''message'', PStr m)]), s')
           \<and> wire_value (PDict [(PStr ''message'', PStr m)])))"
proof (intro conjI impI)
  assume "wire_value ev"
  then show "\<exists>m. handler ev = Inr (PDict [(PStr ''message'', PStr m)])
           \<and> wire_value (PDict [(PStr ''message'', PStr m)])"
    using handler_wire_returns by fastforce
next
  assume g: "\<forall>v t. \<exists>m t'. greet v t = (Inr (PStr m), t')"
  let ?v = "case ev of
              PDict kvs \<Rightarrow> (case map_of kvs (PStr ''name'') of None \<Rightarrow> PNone | Some v \<Rightarrow> v)
            | _ \<Rightarrow> PNone"
  from g obtain m t' where "greet ?v s = (Inr (PStr m), t')"
    by blast
  then show "\<exists>m s'. handler_w_deps greet ev s = (Inr (PDict [(PStr ''message'', PStr m)]), s')
           \<and> wire_value (PDict [(PStr ''message'', PStr m)])"
    by (simp add: handler_w_deps_eq)
qed

theorem handlers_return_message_mapping_witness:
  "wire_value (PDict [(PStr ''name'', PList [PInt 1])])
   \<and> (\<exists>m. handler (PDict [(PStr ''name'', PList [PInt 1])])
            = Inr (PDict [(PStr ''message'', PStr m)])
          \<and> wire_value (PDict [(PStr ''message'', PStr m)]))
   \<and> (\<forall>v t. \<exists>m t'. fixed greet_default v (t::unit) = (Inr (PStr m), t'))
   \<and> (\<exists>m s'. handler_w_deps (fixed greet_default) (PDict [(PStr ''name'', PList [PInt 1])]) ()
            = (Inr (PDict [(PStr ''message'', PStr m)]), s')
          \<and> wire_value (PDict [(PStr ''message'', PStr m)]))"
proof -
  have w: "wire_value (PDict [(PStr ''name'', PList [PInt 1])])"
    by simp
  have g: "\<forall>v t. \<exists>m t'. fixed greet_default v (t::unit) = (Inr (PStr m), t')"
    using greet_default_string by (simp add: fixed_def)
  from handlers_return_message_mapping
    [of "PDict [(PStr ''name'', PList [PInt 1])]" "fixed greet_default" "()"] w g
  show ?thesis
    by blast
qed

text \<open>
  C5. Each unit defines one function, named \<open>handler\<close>. Called with one positional argument
  it runs its body on that argument; called with any other number of positional arguments it
  raises \<open>TypeError\<close>. (\<open>handler-w-deps.py\<close> also binds the imported name \<open>greet\<close>.)
\<close>

theorem units_define_one_handler:
  "defined_functions handler_py = [(''handler'', handler_call)]
   \<and> defined_functions (handler_w_deps_py greet) = [(''handler'', handler_w_deps_call greet)]
   \<and> handler_call [ev] = handler ev
   \<and> handler_w_deps_call greet [ev] s = handler_w_deps greet ev s
   \<and> (length args \<noteq> 1 \<longrightarrow>
        handler_call args = Inl TypeError
        \<and> handler_w_deps_call greet args s = (Inl TypeError, s))"
  by (auto simp: handler_py_def handler_w_deps_py_def handler_call_def handler_w_deps_call_def
      split: list.split)

theorem units_define_one_handler_witness:
  "length [PNone, PStr ''x''] \<noteq> 1
   \<and> handler_call [PNone, PStr ''x''] = Inl TypeError
   \<and> handler_w_deps_call (fixed greet_default) [PNone, PStr ''x''] () = (Inl TypeError, ())"
  using units_define_one_handler [of "fixed greet_default" PNone "()" "[PNone, PStr ''x'']"]
  by simp


text \<open>
  C8. On a mapping event the handler of \<open>handler-w-deps.py\<close> does what one call
  \<open>greet(v)\<close> does, where \<open>v\<close> is the value stored under \<open>"name"\<close>, or \<open>None\<close> when the key is
  absent: it returns \<open>{"message": m}\<close> when the call returns \<open>m\<close>, and the state of the
  dependency is as that one call leaves it. A dependency that records the arguments of its
  calls has recorded one more, \<open>v\<close> itself, whatever its type.
\<close>

theorem handler_w_deps_passes_name_once:
  "handler_w_deps greet (PDict kvs) s =
     (case greet (case map_of kvs (PStr ''name'') of None \<Rightarrow> PNone | Some v \<Rightarrow> v) s of
        (Inl x, s') \<Rightarrow> (Inl x, s')
      | (Inr m, s') \<Rightarrow> (Inr (PDict [(PStr ''message'', m)]), s'))
   \<and> snd (handler_w_deps (recording g) (PDict kvs) calls) =
       calls @ [case map_of kvs (PStr ''name'') of None \<Rightarrow> PNone | Some v \<Rightarrow> v]"
  by (simp add: handler_w_deps_eq recording_def split: sum.split)

text \<open>
  C9. In \<open>handler.py\<close> the default \<open>"World"\<close> is used when a mapping event has no key
  \<open>"name"\<close>. A value stored under \<open>"name"\<close> is rendered into the message: \<open>None\<close> gives
  \<open>"Hello, None!"\<close>, and every wire value gives \<open>"Hello, "\<close>, its \<open>str\<close> rendering and \<open>"!"\<close>.
\<close>

theorem handler_renders_stored_name:
  "(map_of kvs (PStr ''name'') = Some PNone \<longrightarrow>
      handler (PDict kvs) = Inr (PDict [(PStr ''message'', PStr ''Hello, None!'')]))
   \<and> (\<forall>v. map_of kvs (PStr ''name'') = Some v \<and> wire_value v \<longrightarrow>
        (\<exists>r. py_str v = Inr r
            \<and> handler (PDict kvs) = Inr (PDict [(PStr ''message'', PStr (''Hello, '' @ r @ ''!''))])))
   \<and> (map_of kvs (PStr ''name'') = None \<longrightarrow>
      handler (PDict kvs) = Inr (PDict [(PStr ''message'', PStr ''Hello, World!'')]))"
proof (intro conjI allI impI)
  assume "map_of kvs (PStr ''name'') = Some PNone"
  then show "handler (PDict kvs) = Inr (PDict [(PStr ''message'', PStr ''Hello, None!'')])"
    by (simp add: handler_mapping py_format_def raise_bind_def)
next
  fix v
  assume v: "map_of kvs (PStr ''name'') = Some v \<and> wire_value v"
  then obtain r where r: "py_format v = Inr r"
    using format_wire by blast
  with v show "\<exists>r. py_str v = Inr r
      \<and> handler (PDict kvs) = Inr (PDict [(PStr ''message'', PStr (''Hello, '' @ r @ ''!''))])"
    by (simp add: handler_mapping py_format_def raise_bind_def)
next
  assume "map_of kvs (PStr ''name'') = None"
  then show "handler (PDict kvs) = Inr (PDict [(PStr ''message'', PStr ''Hello, World!'')])"
    by (simp add: handler_mapping py_format_PStr raise_bind_def)
qed

theorem handler_renders_stored_name_witness:
  "map_of [(PStr ''name'', PNone)] (PStr ''name'') = Some PNone
   \<and> wire_value PNone
   \<and> handler (PDict [(PStr ''name'', PNone)])
       = Inr (PDict [(PStr ''message'', PStr ''Hello, None!'')])
   \<and> map_of [(PStr ''name'', PList [PInt 7, PStr ''a''])] (PStr ''name'')
       = Some (PList [PInt 7, PStr ''a''])
   \<and> wire_value (PList [PInt 7, PStr ''a''])
   \<and> handler (PDict [(PStr ''name'', PList [PInt 7, PStr ''a''])])
       = Inr (PDict [(PStr ''message'',
                      PStr (''Hello, [7, '' @ [CHR 0x27, CHR ''a'', CHR 0x27] @ '']!''))])
   \<and> map_of [(PStr ''id'', PInt 3)] (PStr ''name'') = None
   \<and> handler (PDict [(PStr ''id'', PInt 3)])
       = Inr (PDict [(PStr ''message'', PStr ''Hello, World!'')])"
proof -
  have r: "py_str (PList [PInt 7, PStr ''a''])
      = Inr (''[7, '' @ [CHR 0x27, CHR ''a'', CHR 0x27] @ '']'')"
    by code_simp
  from handler_renders_stored_name [of "[(PStr ''name'', PList [PInt 7, PStr ''a''])]"]
  have "\<exists>r. py_str (PList [PInt 7, PStr ''a'']) = Inr r
      \<and> handler (PDict [(PStr ''name'', PList [PInt 7, PStr ''a''])])
          = Inr (PDict [(PStr ''message'', PStr (''Hello, '' @ r @ ''!''))])"
    by simp
  with r have "handler (PDict [(PStr ''name'', PList [PInt 7, PStr ''a''])])
      = Inr (PDict [(PStr ''message'',
                     PStr (''Hello, [7, '' @ [CHR 0x27, CHR ''a'', CHR 0x27] @ '']!''))])"
    by auto
  with handler_renders_stored_name [of "[(PStr ''name'', PNone)]"]
    handler_renders_stored_name [of "[(PStr ''id'', PInt 3)]"]
  show ?thesis
    by simp
qed


end
